theory Spec2Isabelle
  imports Complex_Main "HOL-Library.Multiset"
begin

section \<open>Data model\<close>

text \<open>
  Timestamps are milliseconds since the epoch, the value of \<^verbatim>\<open>Date.getTime()\<close>; the ISO
  strings the store keeps are identified with the instants they denote. Amounts of money
  are JavaScript numbers in the source; they are idealised as real numbers here, so the
  rounding of IEEE doubles is not part of the model.
\<close>

type_synonym timestamp = int

datatype order_status = Pending | Preparing | Ready | Delivery | Completed | Cancelled

datatype payment_method = Ideal | Card | Bancontact | Cash

datatype payment_status = Unpaid | PaymentPending | Paid | Failed | Refunded

datatype delivery_type = ByDelivery | ByPickup

datatype driver_status = Available | Busy | Offline

subsection \<open>The dashboard's view of an order\<close>

text \<open>
  \<^verbatim>\<open>Order\<close> is declared in \<^verbatim>\<open>types.ts\<close>, which is not among the sources. The record has
  the fields the dashboard code reads. \<^verbatim>\<open>payment\<close> is read through optional chaining
  (\<^verbatim>\<open>o.payment?.status\<close>), so it may be absent; \<^verbatim>\<open>deliveryMethod\<close> is compared with
  \<^verbatim>\<open>'delivery'\<close> by the status buttons and is optional here as well. The fields
  \<^verbatim>\<open>orderNumber\<close>, \<^verbatim>\<open>customerName\<close> and \<^verbatim>\<open>totalAmount\<close> are read by the new-order effect
  alone (every other line reads \<^verbatim>\<open>total\<close> for the amount); whether an order carries them
  is not known from the sources, so each is optional, \<open>None\<close> standing for a value that is
  missing or, for the amount, not a number.
\<close>

record Payment =
  pay_method :: payment_method
  pay_status :: payment_status

record Order =
  orderId :: string
  status :: order_status
  payment :: "Payment option"
  deliveryType :: delivery_type
  deliveryMethod :: "delivery_type option"
  total :: real
  createdAt :: timestamp
  orderNumber :: "string option"
  customerName :: "string option"
  totalAmount :: "real option"

section \<open>Analytics aggregator (the \<^verbatim>\<open>stats\<close> memo of AdminDashboard)\<close>

text \<open>
  \<^verbatim>\<open>setHours(0, 0, 0, 0)\<close> and \<^verbatim>\<open>setHours(23, 59, 59, 999)\<close> move an instant to the first
  and to the last millisecond of its local calendar day. Local time is UTC plus a fixed
  offset \<open>tz\<close> (in milliseconds); daylight-saving switches are not modelled.
\<close>

definition msPerDay :: int where
  "msPerDay = 86400000"

definition setHoursStart :: "int \<Rightarrow> timestamp \<Rightarrow> timestamp" where
  "setHoursStart tz t = t - (t + tz) mod msPerDay"

definition setHoursEnd :: "int \<Rightarrow> timestamp \<Rightarrow> timestamp" where
  "setHoursEnd tz t = setHoursStart tz t + 86399999"

text \<open>\<^verbatim>\<open>o.payment?.status === 'paid' || o.payment?.method === 'cash'\<close>\<close>

definition isPaidOrCash :: "Order \<Rightarrow> bool" where
  "isPaidOrCash ord =
     (case payment ord of
        None \<Rightarrow> False
      | Some p \<Rightarrow> pay_status p = Paid \<or> pay_method p = Cash)"

definition paidOrders :: "Order list \<Rightarrow> Order list" where
  "paidOrders orders = filter isPaidOrCash orders"

text \<open>
  The predicate of the second filter. \<open>startDate\<close> and \<open>endDate\<close> are the two ends of
  \<^verbatim>\<open>customDateRange\<close> after \<^verbatim>\<open>setHours\<close>; either may be \<^verbatim>\<open>null\<close>.
\<close>

definition inFilter :: "timestamp option \<Rightarrow> timestamp option \<Rightarrow> Order \<Rightarrow> bool" where
  "inFilter startDate endDate ord =
     (case startDate of
        None \<Rightarrow> status ord = Completed
      | Some s \<Rightarrow>
          (case endDate of
             None \<Rightarrow> status ord = Completed
           | Some e \<Rightarrow> status ord = Completed \<and> createdAt ord \<ge> s \<and> createdAt ord \<le> e))"

definition filteredOrders ::
  "int \<Rightarrow> timestamp option \<Rightarrow> timestamp option \<Rightarrow> Order list \<Rightarrow> Order list" where
  "filteredOrders tz rangeStart rangeEnd orders =
     (let startDate = map_option (setHoursStart tz) rangeStart;
          endDate = map_option (setHoursEnd tz) rangeEnd
      in filter (inFilter startDate endDate) (paidOrders orders))"

record Stats =
  revenue :: real
  activeCount :: nat
  orderCount :: nat
  btwAmount :: real
  netRevenue :: real
  avgOrderValue :: real

text \<open>
  The fields of \<^verbatim>\<open>stats\<close> that depend only on the orders and the date range. The item,
  category and chart fields of the source are computed from the same filtered list and
  are left out.
\<close>

definition stats ::
  "int \<Rightarrow> timestamp option \<Rightarrow> timestamp option \<Rightarrow> Order list \<Rightarrow> Stats" where
  "stats tz rangeStart rangeEnd orders =
     (let filtered = filteredOrders tz rangeStart rangeEnd orders;
          rev = foldl (\<lambda>acc ord. acc + total ord) 0 filtered;
          cnt = length filtered;
          avg = (if cnt > 0 then rev / real cnt else 0);
          btw = rev * (9 / 109);
          net = rev - btw;
          activeOrders = filter (\<lambda>ord. status ord \<notin> {Completed, Cancelled}) (paidOrders orders)
      in \<lparr> revenue = rev, activeCount = length activeOrders, orderCount = cnt,
           btwAmount = btw, netRevenue = net, avgOrderValue = avg \<rparr>)"

section \<open>Receipt preview (the BTW lines)\<close>

text \<open>
  The two amounts the receipt preview prints with \<^verbatim>\<open>toFixed(2)\<close>:
  \<^verbatim>\<open>printingOrder.total * 0.91\<close> and \<^verbatim>\<open>printingOrder.total * 0.09\<close>.
\<close>

definition receiptSubtotalExclBtw :: "Order \<Rightarrow> real" where
  "receiptSubtotalExclBtw printingOrder = total printingOrder * 0.91"

definition receiptBtw :: "Order \<Rightarrow> real" where
  "receiptBtw printingOrder = total printingOrder * 0.09"

section \<open>The order and driver tables and the service layer\<close>

text \<open>
  A table is the list of its rows. The columns of \<^verbatim>\<open>DbOrder\<close> and \<^verbatim>\<open>DbDriver\<close> that no
  operation below reads or writes (customer data, amounts, items, notes) are left out;
  the column \<^verbatim>\<open>id\<close> is \<open>db_id\<close> and \<open>driver_id\<close>, the column \<^verbatim>\<open>status\<close> is
  \<open>db_status\<close> and \<open>driver_status\<close>. A request that is lost in transit is outside the
  model: the table answers every query.
\<close>

record DbOrder =
  db_id :: string
  db_status :: order_status
  payment_method :: payment_method
  payment_status :: payment_status
  delivery_type :: delivery_type
  assigned_driver_id :: "string option"
  delivery_departed_at :: "timestamp option"
  estimated_delivery_time :: "timestamp option"
  created_at :: timestamp
  updated_at :: timestamp

record DbDriver =
  driver_id :: string
  name :: string
  phone :: string
  driver_status :: driver_status
  active_deliveries :: int
  driver_updated_at :: timestamp

datatype error = StoreError | RangeError | TypeError

text \<open>
  \<^verbatim>\<open>.update(patch).eq('id', i).select()\<close>: every row whose key is \<open>i\<close> is patched; the
  answer is the list of the patched rows.
\<close>

definition updateEq ::
  "('r \<Rightarrow> string) \<Rightarrow> ('r \<Rightarrow> 'r) \<Rightarrow> string \<Rightarrow> 'r list \<Rightarrow> 'r list \<times> 'r list" where
  "updateEq key patch i rows =
     (map (\<lambda>r. if key r = i then patch r else r) rows,
      map patch (filter (\<lambda>r. key r = i) rows))"

text \<open>\<^verbatim>\<open>.single()\<close>: an error unless the answer has exactly one row.\<close>

fun single :: "'r list \<Rightarrow> error + 'r" where
  "single [r] = Inr r"
| "single _ = Inl StoreError"

text \<open>\<^verbatim>\<open>.order(column, { ascending: false })\<close>\<close>

definition orderDescending :: "('r \<Rightarrow> int) \<Rightarrow> 'r list \<Rightarrow> 'r list" where
  "orderDescending key rows = rev (sort_key key rows)"

text \<open>
  A \<^verbatim>\<open>Date\<close> holds a time value of at most 8.64e15 milliseconds in absolute value;
  \<^verbatim>\<open>toISOString()\<close> throws a \<^verbatim>\<open>RangeError\<close> on any other. The argument \<open>now\<close> of the
  operations below is the value of \<^verbatim>\<open>new Date()\<close>, the current time, which is valid.
\<close>

definition validTime :: "int \<Rightarrow> bool" where
  "validTime t = (\<bar>t\<bar> \<le> 8640000000000000)"

subsection \<open>\<^verbatim>\<open>ordersService\<close>\<close>

definition ordersService_getAll :: "DbOrder list \<Rightarrow> error + DbOrder list" where
  "ordersService_getAll tbl = Inr (orderDescending created_at tbl)"

definition ordersService_updateStatus ::
  "timestamp \<Rightarrow> string \<Rightarrow> order_status \<Rightarrow> DbOrder list \<Rightarrow> DbOrder list \<times> (error + DbOrder)" where
  "ordersService_updateStatus now i st tbl =
     (let (tbl', rows) =
            updateEq db_id (\<lambda>r. r\<lparr>db_status := st, updated_at := now\<rparr>) i tbl
      in (tbl', single rows))"

definition ordersService_assignDriver ::
  "timestamp \<Rightarrow> string \<Rightarrow> string option \<Rightarrow> DbOrder list \<Rightarrow> DbOrder list \<times> (error + DbOrder)" where
  "ordersService_assignDriver now i driver tbl =
     (let (tbl', rows) =
            updateEq db_id (\<lambda>r. r\<lparr>assigned_driver_id := driver, updated_at := now\<rparr>) i tbl
      in (tbl', single rows))"

definition ordersService_startDelivery ::
  "timestamp \<Rightarrow> string \<Rightarrow> int \<Rightarrow> DbOrder list \<Rightarrow> DbOrder list \<times> (error + DbOrder)" where
  "ordersService_startDelivery now i estimatedMinutes tbl =
     (let estimatedDeliveryTime = now + estimatedMinutes * 60000
      in if \<not> validTime estimatedDeliveryTime then (tbl, Inl RangeError)
         else
           (let (tbl', rows) =
                  updateEq db_id
                    (\<lambda>r. r\<lparr>db_status := Delivery,
                            delivery_departed_at := Some now,
                            estimated_delivery_time := Some estimatedDeliveryTime,
                            updated_at := now\<rparr>) i tbl
            in (tbl', single rows)))"

subsection \<open>\<^verbatim>\<open>driversService\<close>\<close>

text \<open>The key of the inserted row is chosen by the database; it is the argument \<open>newId\<close>.\<close>

definition driversService_create ::
  "timestamp \<Rightarrow> string \<Rightarrow> string \<Rightarrow> string \<Rightarrow> DbDriver list \<Rightarrow> DbDriver list \<times> (error + DbDriver)" where
  "driversService_create now newId nm ph tbl =
     (let row = \<lparr> driver_id = newId, name = nm, phone = ph, driver_status = Available,
                   active_deliveries = 0, driver_updated_at = now \<rparr>
      in (tbl @ [row], single [row]))"

definition driversService_update ::
  "timestamp \<Rightarrow> string \<Rightarrow> string option \<Rightarrow> string option \<Rightarrow> DbDriver list
     \<Rightarrow> DbDriver list \<times> (error + DbDriver)" where
  "driversService_update now i nm ph tbl =
     (let (tbl', rows) =
            updateEq driver_id
              (\<lambda>r. r\<lparr>name := (case nm of None \<Rightarrow> name r | Some n \<Rightarrow> n),
                      phone := (case ph of None \<Rightarrow> phone r | Some p \<Rightarrow> p),
                      driver_updated_at := now\<rparr>) i tbl
      in (tbl', single rows))"

definition driversService_updateStatus ::
  "timestamp \<Rightarrow> string \<Rightarrow> driver_status \<Rightarrow> DbDriver list \<Rightarrow> DbDriver list \<times> (error + DbDriver)" where
  "driversService_updateStatus now i st tbl =
     (let (tbl', rows) =
            updateEq driver_id (\<lambda>r. r\<lparr>driver_status := st, driver_updated_at := now\<rparr>) i tbl
      in (tbl', single rows))"

definition driversService_updateActiveDeliveries ::
  "timestamp \<Rightarrow> string \<Rightarrow> int \<Rightarrow> DbDriver list \<Rightarrow> DbDriver list \<times> (error + DbDriver)" where
  "driversService_updateActiveDeliveries now i cnt tbl =
     (let (tbl', rows) =
            updateEq driver_id
              (\<lambda>r. r\<lparr>active_deliveries := cnt,
                      driver_status := (if cnt > 0 then Busy else Available),
                      driver_updated_at := now\<rparr>) i tbl
      in (tbl', single rows))"

definition driversService_delete :: "string \<Rightarrow> DbDriver list \<Rightarrow> DbDriver list" where
  "driversService_delete i tbl = filter (\<lambda>r. driver_id r \<noteq> i) tbl"

text \<open>
  The derived-status invariant in the words of the specification: unless the status is
  offline, it is busy exactly when there are active deliveries.
\<close>

definition statusInvariant :: "DbDriver \<Rightarrow> bool" where
  "statusInvariant drv =
     (driver_status drv = Offline
      \<or> (driver_status drv = Busy \<longleftrightarrow> active_deliveries drv > 0))"

section \<open>AdminDashboard: status buttons and the print action\<close>

datatype button = UpdateOrderStatus order_status | OpenDeliveryModal

text \<open>
  The buttons of the block \<^verbatim>\<open>Status Update Buttons\<close> for the selected order, in the order
  of the markup, each with the action of its \<^verbatim>\<open>onClick\<close>.
\<close>

definition statusUpdateButtons :: "Order \<Rightarrow> button list" where
  "statusUpdateButtons selectedOrder =
     (if status selectedOrder \<noteq> Completed \<and> status selectedOrder \<noteq> Cancelled then
        (if status selectedOrder = Pending then [UpdateOrderStatus Preparing] else [])
        @ (if status selectedOrder = Preparing then
             (if deliveryMethod selectedOrder = Some ByDelivery then [OpenDeliveryModal]
              else [UpdateOrderStatus Ready])
           else [])
        @ (if status selectedOrder = Ready \<or> status selectedOrder = Delivery
           then [UpdateOrderStatus Completed] else [])
      else [])"

text \<open>
  Modelled from the spec: \<^verbatim>\<open>updateOrderStatus\<close> of \<^verbatim>\<open>OrdersContext\<close> is defined in
  \<^verbatim>\<open>index.tsx\<close>, which is not among the sources. By the store contract
  (\<^verbatim>\<open>updateStatus(orderId, status)\<close> yields the order or fails with a store error) it hands
  the request to \<^verbatim>\<open>ordersService.updateStatus\<close>; what remains is the table.
\<close>

definition updateOrderStatus ::
  "timestamp \<Rightarrow> string \<Rightarrow> order_status \<Rightarrow> DbOrder list \<Rightarrow> DbOrder list" where
  "updateOrderStatus now i st tbl = fst (ordersService_updateStatus now i st tbl)"

text \<open>
  The body of the timer callback of \<^verbatim>\<open>performActualPrint\<close>; \<open>upd\<close> is the
  \<^verbatim>\<open>updateOrderStatus\<close> of the context. The flags \<^verbatim>\<open>isPrinting\<close> and \<^verbatim>\<open>printingOrder\<close>, which
  the callback resets, are presentation state and are left out.
\<close>

definition performActualPrint ::
  "(string \<Rightarrow> order_status \<Rightarrow> 's \<Rightarrow> 's) \<Rightarrow> Order \<Rightarrow> 's \<Rightarrow> 's" where
  "performActualPrint upd ord s =
     (if status ord \<noteq> Completed \<and> status ord \<noteq> Cancelled
      then upd (orderId ord) Completed s else s)"

section \<open>Delivery dispatch\<close>

text \<open>
  Modelled from the spec: the change of one driver's count made by the dispatch, which
  is part of \<^verbatim>\<open>index.tsx\<close> and not among the sources. The driver's current count is read
  and the new one is written by \<^verbatim>\<open>driversService.updateActiveDeliveries\<close>; a driver that
  is not in the table is left alone.
\<close>

definition changeActiveDeliveries :: "timestamp \<Rightarrow> string \<Rightarrow> int \<Rightarrow> DbDriver list \<Rightarrow> DbDriver list" where
  "changeActiveDeliveries now d k drivers =
     (case find (\<lambda>r. driver_id r = d) drivers of
        None \<Rightarrow> drivers
      | Some drv \<Rightarrow>
          fst (driversService_updateActiveDeliveries now d (active_deliveries drv + k) drivers))"

text \<open>
  Modelled from the spec: \<^verbatim>\<open>assignDriver\<close> of \<^verbatim>\<open>OrdersContext\<close>, which the dashboard
  calls, is defined in \<^verbatim>\<open>index.tsx\<close>, which is not among the sources. In the words of
  the specification, assigning a driver increments that driver's \<^verbatim>\<open>activeDeliveries\<close>;
  reassigning decrements the previous driver's count and increments the new one's;
  passing null unassigns and decrements; assignment does not change the order's status.
  The order is written by \<^verbatim>\<open>ordersService.assignDriver\<close> and a count by
  \<^verbatim>\<open>driversService.updateActiveDeliveries\<close>, both of the sources. The model does not look
  at the delivery type: the dashboard shows the driver selector for delivery orders only.
\<close>

definition assignDriver ::
  "timestamp \<Rightarrow> string \<Rightarrow> string option \<Rightarrow> DbOrder list \<times> DbDriver list
     \<Rightarrow> (DbOrder list \<times> DbDriver list) \<times> (error + DbOrder)" where
  "assignDriver now i driverOrNull st =
     (let (orders, drivers) = st in
      case find (\<lambda>r. db_id r = i) orders of
        None \<Rightarrow> (st, Inl StoreError)
      | Some ord \<Rightarrow>
          (case ordersService_assignDriver now i driverOrNull orders of
             (orders', Inl e) \<Rightarrow> ((orders', drivers), Inl e)
           | (orders', Inr row) \<Rightarrow>
               (let drivers1 =
                      (case assigned_driver_id ord of
                         None \<Rightarrow> drivers
                       | Some p \<Rightarrow> changeActiveDeliveries now p (- 1) drivers);
                    drivers2 =
                      (case driverOrNull of
                         None \<Rightarrow> drivers1
                       | Some d \<Rightarrow> changeActiveDeliveries now d 1 drivers1)
                in ((orders', drivers2), Inr row))))"

text \<open>
  The bookkeeping: every driver's count is the number of orders assigned to that driver.
  The contribution of one order is the number of drivers it is assigned to.
\<close>

definition assignedTo :: "string \<Rightarrow> DbOrder list \<Rightarrow> nat" where
  "assignedTo d orders = length (filter (\<lambda>r. assigned_driver_id r = Some d) orders)"

definition bookkeeping :: "DbOrder list \<Rightarrow> DbDriver list \<Rightarrow> bool" where
  "bookkeeping orders drivers =
     list_all (\<lambda>drv. active_deliveries drv = int (assignedTo (driver_id drv) orders)) drivers"

definition contribution :: "DbOrder \<Rightarrow> DbDriver list \<Rightarrow> nat" where
  "contribution ord drivers =
     length (filter (\<lambda>drv. assigned_driver_id ord = Some (driver_id drv)) drivers)"

definition countChange :: "string option \<Rightarrow> string option \<Rightarrow> string \<Rightarrow> int" where
  "countChange previous new d = (if new = Some d then 1 else 0) - (if previous = Some d then 1 else 0)"

section \<open>Intake monitor (the new-order effect of AdminDashboard)\<close>

datatype permission = Default | Granted | Denied

datatype effect = Sound | OsNotification Order | Toast Order | HideToastAfter nat

definition playNotificationSound :: "bool \<Rightarrow> effect list" where
  "playNotificationSound audioAlertsEnabled = (if \<not> audioAlertsEnabled then [] else [Sound])"

text \<open>
  The browser notification. Its body is the template
  \<^verbatim>\<open>#${newOrder.orderNumber} ... ${newOrder.customerName} ... ${newOrder.totalAmount.toFixed(2)}\<close>:
  a missing number or name prints as \<^verbatim>\<open>undefined\<close>, but \<^verbatim>\<open>toFixed\<close> on a missing amount
  throws a \<^verbatim>\<open>TypeError\<close>. The read is inside the test for the permission and outside any
  \<^verbatim>\<open>try\<close>. The constructor \<^verbatim>\<open>Notification\<close> is taken to succeed once permission is granted.
\<close>

definition showBrowserNotification :: "permission \<Rightarrow> Order \<Rightarrow> error + effect list" where
  "showBrowserNotification notificationPermission newOrder =
     (if notificationPermission = Granted then
        (case totalAmount newOrder of
           None \<Rightarrow> Inl TypeError
         | Some amount \<Rightarrow> Inr [OsNotification newOrder])
      else Inr [])"

text \<open>
  One run of the effect: the orders of the current render and the count kept in
  \<^verbatim>\<open>prevOrderCount\<close> give the effects raised, the count kept for the next run and the
  error thrown, if any. When the notification throws, the sound has been played, the
  toast is not shown and the assignment to \<^verbatim>\<open>prevOrderCount.current\<close> is not reached.
\<close>

definition detectNewOrders ::
  "bool \<Rightarrow> permission \<Rightarrow> Order list \<Rightarrow> nat \<Rightarrow> effect list \<times> nat \<times> error option" where
  "detectNewOrders audioAlertsEnabled notificationPermission orders prevOrderCount =
     (if length orders > prevOrderCount then
        (let newOrder = orders ! (length orders - 1);
             sound = playNotificationSound audioAlertsEnabled
         in case showBrowserNotification notificationPermission newOrder of
              Inl e \<Rightarrow> (sound, prevOrderCount, Some e)
            | Inr shown \<Rightarrow>
                (sound @ shown @ [Toast newOrder, HideToastAfter 5000], length orders, None))
      else ([], length orders, None))"

text \<open>
  The effect run once per render, over the successive order lists. An error thrown by
  an effect takes the component down, so the run ends there.
\<close>

fun intakeMonitor :: "bool \<Rightarrow> permission \<Rightarrow> Order list list \<Rightarrow> nat \<Rightarrow> effect list" where
  "intakeMonitor audio perm [] prev = []"
| "intakeMonitor audio perm (orders # rest) prev =
     (case detectNewOrders audio perm orders prev of
        (effs, prev', None) \<Rightarrow> effs @ intakeMonitor audio perm rest prev'
      | (effs, prev', Some e) \<Rightarrow> effs)"

definition toastCount :: "effect list \<Rightarrow> nat" where
  "toastCount effs = length (filter (\<lambda>e. case e of Toast _ \<Rightarrow> True | _ \<Rightarrow> False) effs)"

section \<open>The eligibility predicate in the words of the specification\<close>

text \<open>
  An order is eligible when (payment status paid or payment method cash) and status
  completed and, when both ends of the range are set, its creation time lies between
  00:00:00 of the start day and the end of second 23:59:59 of the end day.
\<close>

definition eligible_spec ::
  "int \<Rightarrow> timestamp option \<Rightarrow> timestamp option \<Rightarrow> Order \<Rightarrow> bool" where
  "eligible_spec tz rangeStart rangeEnd ord =
     ((map_option pay_status (payment ord) = Some Paid
         \<or> map_option pay_method (payment ord) = Some Cash)
      \<and> status ord = Completed
      \<and> (case (rangeStart, rangeEnd) of
           (Some s, Some e) \<Rightarrow>
             setHoursStart tz s \<le> createdAt ord \<and> createdAt ord \<le> setHoursEnd tz e
         | _ \<Rightarrow> True))"

section \<open>Concrete inputs\<close>

definition order109 :: Order where
  "order109 = \<lparr> orderId = ''o1'', status = Completed,
      payment = Some \<lparr> pay_method = Ideal, pay_status = Paid \<rparr>,
      deliveryType = ByPickup, deliveryMethod = Some ByPickup, total = 109, createdAt = 0,
      orderNumber = None, customerName = None, totalAmount = None \<rparr>"

text \<open>Orders for the analytics: day 0 is the range, the offset is 0.\<close>

definition orderNextDay :: Order where
  "orderNextDay = \<lparr> orderId = ''o2'', status = Completed,
      payment = Some \<lparr> pay_method = Card, pay_status = Paid \<rparr>,
      deliveryType = ByDelivery, deliveryMethod = Some ByDelivery, total = 20,
      createdAt = 86400000,
      orderNumber = None, customerName = None, totalAmount = None \<rparr>"

definition orderCashPending :: Order where
  "orderCashPending = \<lparr> orderId = ''o3'', status = Pending,
      payment = Some \<lparr> pay_method = Cash, pay_status = Unpaid \<rparr>,
      deliveryType = ByPickup, deliveryMethod = Some ByPickup, total = 15, createdAt = 1000,
      orderNumber = None, customerName = None, totalAmount = None \<rparr>"

definition orderCashLate :: Order where
  "orderCashLate = \<lparr> orderId = ''o4'', status = Completed,
      payment = Some \<lparr> pay_method = Cash, pay_status = Unpaid \<rparr>,
      deliveryType = ByPickup, deliveryMethod = Some ByPickup, total = 11,
      createdAt = 86399999,
      orderNumber = None, customerName = None, totalAmount = None \<rparr>"

definition orderUnpaid :: Order where
  "orderUnpaid = \<lparr> orderId = ''o5'', status = Completed,
      payment = Some \<lparr> pay_method = Ideal, pay_status = Failed \<rparr>,
      deliveryType = ByPickup, deliveryMethod = Some ByPickup, total = 7, createdAt = 5,
      orderNumber = None, customerName = None, totalAmount = None \<rparr>"

definition analyticsOrders :: "Order list" where
  "analyticsOrders = [order109, orderNextDay, orderCashPending, orderCashLate, orderUnpaid]"

text \<open>Rows of the order table and of the driver table.\<close>

definition rowCompleted :: DbOrder where
  "rowCompleted = \<lparr> db_id = ''o1'', db_status = Completed, payment_method = Ideal,
      payment_status = Paid, delivery_type = ByPickup, assigned_driver_id = None,
      delivery_departed_at = None, estimated_delivery_time = None,
      created_at = 1000, updated_at = 1000 \<rparr>"

definition rowPendingPickup :: DbOrder where
  "rowPendingPickup = \<lparr> db_id = ''o2'', db_status = Pending, payment_method = Cash,
      payment_status = Unpaid, delivery_type = ByPickup, assigned_driver_id = None,
      delivery_departed_at = None, estimated_delivery_time = None,
      created_at = 2000, updated_at = 2000 \<rparr>"

definition rowPreparingDelivery :: DbOrder where
  "rowPreparingDelivery = \<lparr> db_id = ''o3'', db_status = Preparing, payment_method = Card,
      payment_status = Paid, delivery_type = ByDelivery, assigned_driver_id = None,
      delivery_departed_at = None, estimated_delivery_time = None,
      created_at = 3000, updated_at = 3000 \<rparr>"

definition driverOffline :: DbDriver where
  "driverOffline = \<lparr> driver_id = ''d1'', name = ''Nikos'', phone = ''0611111111'',
      driver_status = Offline, active_deliveries = 0, driver_updated_at = 100 \<rparr>"

definition driverBusy :: DbDriver where
  "driverBusy = \<lparr> driver_id = ''d2'', name = ''Eleni'', phone = ''0622222222'',
      driver_status = Busy, active_deliveries = 2, driver_updated_at = 100 \<rparr>"

definition orderPreparingDelivery :: Order where
  "orderPreparingDelivery = \<lparr> orderId = ''o3'', status = Preparing,
      payment = Some \<lparr> pay_method = Card, pay_status = Paid \<rparr>,
      deliveryType = ByDelivery, deliveryMethod = Some ByDelivery, total = 30,
      createdAt = 3000,
      orderNumber = None, customerName = None, totalAmount = None \<rparr>"

definition driverIdle :: DbDriver where
  "driverIdle = \<lparr> driver_id = ''d3'', name = ''Kostas'', phone = ''0633333333'',
      driver_status = Available, active_deliveries = 0, driver_updated_at = 100 \<rparr>"

definition driverOne :: DbDriver where
  "driverOne = \<lparr> driver_id = ''d4'', name = ''Maria'', phone = ''0644444444'',
      driver_status = Busy, active_deliveries = 1, driver_updated_at = 100 \<rparr>"

definition rowAssigned :: DbOrder where
  "rowAssigned = \<lparr> db_id = ''o4'', db_status = Preparing, payment_method = Card,
      payment_status = Paid, delivery_type = ByDelivery, assigned_driver_id = Some ''d4'',
      delivery_departed_at = None, estimated_delivery_time = None,
      created_at = 4000, updated_at = 4000 \<rparr>"

definition driverOfflineLoaded :: DbDriver where
  "driverOfflineLoaded = \<lparr> driver_id = ''d5'', name = ''Yannis'', phone = ''0655555555'',
      driver_status = Offline, active_deliveries = 3, driver_updated_at = 100 \<rparr>"

text \<open>Orders that carry the fields of the notification body.\<close>

definition orderNewA :: Order where
  "orderNewA = \<lparr> orderId = ''n1'', status = Pending,
      payment = Some \<lparr> pay_method = Ideal, pay_status = Paid \<rparr>,
      deliveryType = ByPickup, deliveryMethod = Some ByPickup, total = 12, createdAt = 7000,
      orderNumber = Some ''101'', customerName = Some ''Anna'', totalAmount = Some 12 \<rparr>"

definition orderNewB :: Order where
  "orderNewB = \<lparr> orderId = ''n2'', status = Pending,
      payment = Some \<lparr> pay_method = Cash, pay_status = Unpaid \<rparr>,
      deliveryType = ByDelivery, deliveryMethod = Some ByDelivery, total = 25, createdAt = 8000,
      orderNumber = Some ''102'', customerName = Some ''Bram'', totalAmount = Some 25 \<rparr>"

definition orderNewC :: Order where
  "orderNewC = \<lparr> orderId = ''n3'', status = Pending,
      payment = Some \<lparr> pay_method = Card, pay_status = Paid \<rparr>,
      deliveryType = ByPickup, deliveryMethod = Some ByPickup, total = 31, createdAt = 9000,
      orderNumber = Some ''103'', customerName = Some ''Cees'', totalAmount = Some 31 \<rparr>"

section \<open>Auxiliary facts\<close>

lemma foldl_total_acc:
  "foldl (\<lambda>acc ord. acc + total ord) a xs = a + sum_list (map total xs)"
  by (induction xs arbitrary: a) simp_all

lemma stats_revenue_sum:
  "revenue (stats tz rs re orders) = sum_list (map total (filteredOrders tz rs re orders))"
  by (simp add: stats_def Let_def foldl_total_acc)

lemma stats_btwAmount:
  "btwAmount (stats tz rs re orders) = revenue (stats tz rs re orders) * (9 / 109)"
  by (simp add: stats_def Let_def)

lemma stats_netRevenue:
  "netRevenue (stats tz rs re orders) =
     revenue (stats tz rs re orders) - btwAmount (stats tz rs re orders)"
  by (simp add: stats_def Let_def)

lemma revenue_order109: "revenue (stats 0 None None [order109]) = 109"
  by (simp add: stats_def filteredOrders_def paidOrders_def isPaidOrCash_def inFilter_def
      order109_def)

section \<open>C5: the inclusive-VAT split of the analytics aggregator\<close>

text \<open>
  Claim C5. The aggregator splits the revenue as tax = revenue * 9/109 and
  netRevenue = revenue - tax; for a revenue of 109 the tax is 9 and the net revenue 100
  (exactly, over the reals); and the tax is not revenue * 0.09 unless the revenue is 0.
\<close>

theorem C5_inclusive_vat_split:
  "btwAmount (stats tz rs re orders) = revenue (stats tz rs re orders) * 9 / 109
   \<and> netRevenue (stats tz rs re orders)
       = revenue (stats tz rs re orders) - btwAmount (stats tz rs re orders)
   \<and> (revenue (stats tz rs re orders) = 109 \<longrightarrow>
        btwAmount (stats tz rs re orders) = 9 \<and> netRevenue (stats tz rs re orders) = 100)
   \<and> (revenue (stats tz rs re orders) \<noteq> 0 \<longrightarrow>
        btwAmount (stats tz rs re orders) \<noteq> revenue (stats tz rs re orders) * 0.09)"
  by (simp add: stats_btwAmount stats_netRevenue)

theorem C5_inclusive_vat_split_witness:
  "revenue (stats 0 None None [order109]) = 109
   \<and> btwAmount (stats 0 None None [order109]) = 9
   \<and> netRevenue (stats 0 None None [order109]) = 100
   \<and> btwAmount (stats 0 None None [order109]) \<noteq> 109 * 0.09"
  using C5_inclusive_vat_split [of 0 None None "[order109]"] revenue_order109
  by simp

section \<open>C10: the receipt's BTW lines against the aggregator's split\<close>

text \<open>
  Claim C10. For an order with a positive total the receipt preview computes the BTW as
  total * 0.09 and the subtotal without BTW as total * 0.91; the aggregator splits the
  same amount into total * 9/109 and total * 100/109; the two taxes differ and the two
  net amounts differ.
\<close>

theorem C10_receipt_vat_differs:
  "0 < total ord \<Longrightarrow> revenue (stats tz rs re orders) = total ord \<Longrightarrow>
     receiptBtw ord = total ord * 0.09
     \<and> receiptSubtotalExclBtw ord = total ord * 0.91
     \<and> btwAmount (stats tz rs re orders) = total ord * 9 / 109
     \<and> netRevenue (stats tz rs re orders) = total ord * 100 / 109
     \<and> receiptBtw ord \<noteq> btwAmount (stats tz rs re orders)
     \<and> receiptSubtotalExclBtw ord \<noteq> netRevenue (stats tz rs re orders)"
  by (simp add: receiptBtw_def receiptSubtotalExclBtw_def stats_btwAmount stats_netRevenue)

theorem C10_receipt_vat_differs_witness:
  "0 < total order109 \<and> revenue (stats 0 None None [order109]) = total order109
   \<and> receiptBtw order109 = 981 / 100 \<and> btwAmount (stats 0 None None [order109]) = 9
   \<and> receiptSubtotalExclBtw order109 = 9919 / 100
   \<and> netRevenue (stats 0 None None [order109]) = 100"
  using C10_receipt_vat_differs [of order109 0 None None "[order109]"] revenue_order109
  by (simp add: order109_def)

section \<open>C4: eligibility, revenue, order count and average\<close>

lemma eligible_spec_code:
  "eligible_spec tz rs re ord =
     (isPaidOrCash ord
      \<and> inFilter (map_option (setHoursStart tz) rs) (map_option (setHoursEnd tz) re) ord)"
  by (cases rs; cases re; cases "payment ord")
     (auto simp: eligible_spec_def isPaidOrCash_def inFilter_def)

lemma filteredOrders_eligible:
  "filteredOrders tz rs re orders = filter (eligible_spec tz rs re) orders"
  unfolding filteredOrders_def paidOrders_def Let_def filter_filter
  by (rule filter_cong) (auto simp: eligible_spec_code)

lemma stats_orderCount:
  "orderCount (stats tz rs re orders) = length (filteredOrders tz rs re orders)"
  by (simp add: stats_def Let_def)

lemma stats_avgOrderValue:
  "avgOrderValue (stats tz rs re orders) =
     (if orderCount (stats tz rs re orders) > 0
      then revenue (stats tz rs re orders) / real (orderCount (stats tz rs re orders)) else 0)"
  by (simp add: stats_def Let_def)

lemma eligible_analyticsOrders:
  "filter (eligible_spec 0 (Some 0) (Some 0)) analyticsOrders = [order109, orderCashLate]"
  by (simp add: analyticsOrders_def eligible_spec_def setHoursStart_def setHoursEnd_def
      msPerDay_def order109_def orderNextDay_def orderCashPending_def orderCashLate_def
      orderUnpaid_def)

lemma eligible_analyticsOrders_norange:
  "filter (eligible_spec 0 None None) analyticsOrders = [order109, orderNextDay, orderCashLate]"
  by (simp add: analyticsOrders_def eligible_spec_def
      order109_def orderNextDay_def orderCashPending_def orderCashLate_def orderUnpaid_def)

text \<open>
  Claim C4. The orders counted by the aggregator are exactly the eligible ones, in the
  order and with the multiplicity of the collection: paid or cash, completed and, when
  both ends of the range are set, created between the first millisecond of the start
  day and the last millisecond (23:59:59.999) of the end day. The revenue is the sum of
  their totals, the order count their number, and the average is revenue / count, or 0
  when there is none.
\<close>

theorem C4_eligibility:
  "filteredOrders tz rs re orders = filter (eligible_spec tz rs re) orders
   \<and> revenue (stats tz rs re orders)
       = sum_list (map total (filter (eligible_spec tz rs re) orders))
   \<and> orderCount (stats tz rs re orders) = length (filter (eligible_spec tz rs re) orders)
   \<and> avgOrderValue (stats tz rs re orders)
       = (if filter (eligible_spec tz rs re) orders = [] then 0
          else revenue (stats tz rs re orders) / real (orderCount (stats tz rs re orders)))"
  by (simp add: stats_revenue_sum stats_orderCount stats_avgOrderValue filteredOrders_eligible)

theorem C4_eligibility_witness:
  "filteredOrders 0 (Some 0) (Some 0) analyticsOrders = [order109, orderCashLate]
   \<and> revenue (stats 0 (Some 0) (Some 0) analyticsOrders) = 120
   \<and> orderCount (stats 0 (Some 0) (Some 0) analyticsOrders) = 2
   \<and> avgOrderValue (stats 0 (Some 0) (Some 0) analyticsOrders) = 60
   \<and> filteredOrders 0 None None analyticsOrders = [order109, orderNextDay, orderCashLate]
   \<and> avgOrderValue (stats 0 None None []) = 0"
  using C4_eligibility [of 0 "Some 0" "Some 0" analyticsOrders]
    C4_eligibility [of 0 None None analyticsOrders]
    C4_eligibility [of 0 None None "[]"]
    eligible_analyticsOrders eligible_analyticsOrders_norange
  by (simp add: order109_def orderCashLate_def)

section \<open>Facts about the store operations\<close>

lemma single_Inr_iff: "single rows = Inr r \<longleftrightarrow> rows = [r]"
  by (cases rows rule: single.cases) auto

lemma fst_ordersService_updateStatus:
  "fst (ordersService_updateStatus now i st tbl) =
     map (\<lambda>r. if db_id r = i then r\<lparr>db_status := st, updated_at := now\<rparr> else r) tbl"
  by (simp add: ordersService_updateStatus_def updateEq_def)

lemma snd_ordersService_updateStatus:
  "snd (ordersService_updateStatus now i st tbl) =
     single (map (\<lambda>r. r\<lparr>db_status := st, updated_at := now\<rparr>) (filter (\<lambda>r. db_id r = i) tbl))"
  by (simp add: ordersService_updateStatus_def updateEq_def)

lemma sorted_wrt_rev_ge:
  "sorted (map key xs) \<Longrightarrow> sorted_wrt (\<lambda>a b. key a \<ge> key b) (rev xs)"
  by (simp add: sorted_wrt_rev sorted_map)

lemma fst_driversService_updateActiveDeliveries:
  "fst (driversService_updateActiveDeliveries now i cnt tbl) =
     map (\<lambda>r. if driver_id r = i
               then r\<lparr>active_deliveries := cnt,
                      driver_status := (if cnt > 0 then Busy else Available),
                      driver_updated_at := now\<rparr>
               else r) tbl"
  by (simp add: driversService_updateActiveDeliveries_def updateEq_def)

lemma fst_driversService_updateStatus:
  "fst (driversService_updateStatus now i st tbl) =
     map (\<lambda>r. if driver_id r = i then r\<lparr>driver_status := st, driver_updated_at := now\<rparr> else r) tbl"
  by (simp add: driversService_updateStatus_def updateEq_def)

section \<open>C6: new-order detection by count\<close>

lemma nth_length_minus_1_last: "prev < length xs \<Longrightarrow> xs ! (length xs - Suc 0) = last xs"
  by (cases xs rule: rev_cases) (simp_all add: nth_append)

text \<open>
  The claim says that every increase of the count raises the sound, the OS notification
  when permitted, and the toast. With audio alerts switched off, an increase raises the
  toast and no sound. With permission granted and a last order that carries no numeric
  \<^verbatim>\<open>totalAmount\<close>, the effect throws after the sound: there is no OS notification and no
  toast, and the kept count stays as it was.
\<close>

theorem C6_intake_monitor_counterexample:
  "detectNewOrders False Denied [orderNewA, orderNewB] 1
     = ([Toast orderNewB, HideToastAfter 5000], 2, None)
   \<and> Sound \<notin> set (fst (detectNewOrders False Denied [orderNewA, orderNewB] 1))
   \<and> detectNewOrders True Granted [order109] 0 = ([Sound], 0, Some TypeError)
   \<and> toastCount (fst (detectNewOrders True Granted [order109] 0)) = 0"
  by (simp add: detectNewOrders_def playNotificationSound_def showBrowserNotification_def
      toastCount_def order109_def)

text \<open>
  Claim C6, amended. One run of the detection effect keeps nothing but a number of
  orders. When the current number is the same as the kept one or smaller, nothing is
  raised and the current number is kept. When it is greater, however many orders
  arrived, and the last order of the current list carries a numeric \<^verbatim>\<open>totalAmount\<close> in
  case OS notifications are permitted, exactly one notification is raised, for that last
  order: the sound when audio alerts are enabled, the OS notification when permitted,
  and one toast with its 5 second timer; the current number is kept. In particular a
  jump by 2 raises one toast, and so do two renders of which the second has two more
  orders than the first.
\<close>

theorem C6_intake_monitor:
  "(length orders \<le> prev \<longrightarrow>
      detectNewOrders audio perm orders prev = ([], length orders, None))
   \<and> (prev < length orders \<and> (perm = Granted \<longrightarrow> totalAmount (last orders) \<noteq> None) \<longrightarrow>
        detectNewOrders audio perm orders prev
          = ((if audio then [Sound] else [])
             @ (if perm = Granted then [OsNotification (last orders)] else [])
             @ [Toast (last orders), HideToastAfter 5000],
             length orders, None)
        \<and> toastCount (fst (detectNewOrders audio perm orders prev)) = 1)
   \<and> (length orders = prev + 2 \<and> (perm = Granted \<longrightarrow> totalAmount (last orders) \<noteq> None) \<longrightarrow>
        toastCount (fst (detectNewOrders audio perm orders prev)) = 1)
   \<and> ((perm = Granted \<longrightarrow> totalAmount b \<noteq> None) \<longrightarrow>
        toastCount (intakeMonitor audio perm [orders, orders @ [a, b]] (length orders)) = 1)"
proof -
  have none: "detectNewOrders audio perm orders prev = ([], length orders, None)"
    if "length orders \<le> prev"
    using that by (simp add: detectNewOrders_def)
  have one: "detectNewOrders audio perm xs k
          = ((if audio then [Sound] else [])
             @ (if perm = Granted then [OsNotification (last xs)] else [])
             @ [Toast (last xs), HideToastAfter 5000],
             length xs, None)"
    if "k < length xs" and "perm = Granted \<longrightarrow> totalAmount (last xs) \<noteq> None" for xs k
    using that
    by (auto simp: detectNewOrders_def playNotificationSound_def showBrowserNotification_def
        Let_def nth_length_minus_1_last)
  have cnt: "toastCount (fst (detectNewOrders audio perm xs k)) = 1"
    if "k < length xs" and "perm = Granted \<longrightarrow> totalAmount (last xs) \<noteq> None" for xs k
    unfolding one [OF that] by (simp add: toastCount_def)
  have run: "toastCount (intakeMonitor audio perm [orders, orders @ [a, b]] (length orders)) = 1"
    if "perm = Granted \<longrightarrow> totalAmount b \<noteq> None"
  proof -
    have first: "detectNewOrders audio perm orders (length orders) = ([], length orders, None)"
      by (simp add: detectNewOrders_def)
    have second: "detectNewOrders audio perm (orders @ [a, b]) (length orders)
          = ((if audio then [Sound] else [])
             @ (if perm = Granted then [OsNotification b] else [])
             @ [Toast b, HideToastAfter 5000],
             length orders + 2, None)"
      using one [of "length orders" "orders @ [a, b]"] that by simp
    show ?thesis
      by (simp add: first second toastCount_def)
  qed
  have c1: "length orders \<le> prev \<longrightarrow>
      detectNewOrders audio perm orders prev = ([], length orders, None)"
    using none by blast
  have c2: "prev < length orders \<and> (perm = Granted \<longrightarrow> totalAmount (last orders) \<noteq> None) \<longrightarrow>
        detectNewOrders audio perm orders prev
          = ((if audio then [Sound] else [])
             @ (if perm = Granted then [OsNotification (last orders)] else [])
             @ [Toast (last orders), HideToastAfter 5000],
             length orders, None)
        \<and> toastCount (fst (detectNewOrders audio perm orders prev)) = 1"
    using one [of prev orders] cnt [of prev orders] by blast
  have c3: "length orders = prev + 2 \<and> (perm = Granted \<longrightarrow> totalAmount (last orders) \<noteq> None) \<longrightarrow>
        toastCount (fst (detectNewOrders audio perm orders prev)) = 1"
  proof (intro impI, elim conjE)
    assume "length orders = prev + 2"
      and amount: "perm = Granted \<longrightarrow> totalAmount (last orders) \<noteq> None"
    then have "prev < length orders" by simp
    then show "toastCount (fst (detectNewOrders audio perm orders prev)) = 1"
      using amount by (rule cnt)
  qed
  have c4: "(perm = Granted \<longrightarrow> totalAmount b \<noteq> None) \<longrightarrow>
        toastCount (intakeMonitor audio perm [orders, orders @ [a, b]] (length orders)) = 1"
    using run by blast
  from c1 c2 c3 c4 show ?thesis by (intro conjI)
qed

lemma totalAmount_orderNewC: "totalAmount orderNewC = Some 31"
  by (simp add: orderNewC_def)

theorem C6_intake_monitor_witness:
  "length [orderNewA, orderNewB, orderNewC] = 1 + 2
   \<and> totalAmount (last [orderNewA, orderNewB, orderNewC]) = Some 31
   \<and> detectNewOrders True Granted [orderNewA, orderNewB, orderNewC] 1
       = ([Sound, OsNotification orderNewC, Toast orderNewC, HideToastAfter 5000], 3, None)
   \<and> toastCount (fst (detectNewOrders True Granted [orderNewA, orderNewB, orderNewC] 1)) = 1
   \<and> detectNewOrders True Granted [orderNewA, orderNewB, orderNewC] 3 = ([], 3, None)
   \<and> detectNewOrders True Granted [orderNewA, orderNewB] 3 = ([], 2, None)
   \<and> toastCount (intakeMonitor True Granted [[orderNewA], [orderNewA] @ [orderNewB, orderNewC]]
        (length [orderNewA])) = 1"
  using totalAmount_orderNewC C6_intake_monitor [of "[orderNewA, orderNewB, orderNewC]" 1 True Granted orderNewC orderNewC]
    C6_intake_monitor [of "[orderNewA, orderNewB, orderNewC]" 3 True Granted orderNewC orderNewC]
    C6_intake_monitor [of "[orderNewA, orderNewB]" 3 True Granted orderNewC orderNewC]
    C6_intake_monitor [of "[orderNewA]" 1 True Granted orderNewC orderNewB]
  by (simp add: toastCount_def)

section \<open>C7: the print action completes a non-terminal order\<close>

text \<open>
  Claim C7. Confirming the print calls \<^verbatim>\<open>updateOrderStatus(order.id, 'completed')\<close> if
  and only if the order's status is neither completed nor cancelled. With the status
  update of the store behind it, the row of a non-terminal order ends with status
  completed and no other row changes its status; for an order that is already completed
  or cancelled the table is left as it is.
\<close>

theorem C7_print_completes:
  "performActualPrint upd ord s
     = (if status ord \<in> {Completed, Cancelled} then s else upd (orderId ord) Completed s)
   \<and> (status ord \<notin> {Completed, Cancelled} \<longrightarrow>
        map db_status (performActualPrint (updateOrderStatus now) ord tbl)
          = map (\<lambda>r. if db_id r = orderId ord then Completed else db_status r) tbl)
   \<and> (status ord \<in> {Completed, Cancelled} \<longrightarrow>
        performActualPrint (updateOrderStatus now) ord tbl = tbl)"
  by (auto simp: performActualPrint_def updateOrderStatus_def fst_ordersService_updateStatus)

theorem C7_print_completes_witness:
  "status orderPreparingDelivery \<notin> {Completed, Cancelled}
   \<and> map db_status (performActualPrint (updateOrderStatus 9) orderPreparingDelivery
         [rowCompleted, rowPendingPickup, rowPreparingDelivery])
       = [Completed, Pending, Completed]
   \<and> status order109 \<in> {Completed, Cancelled}
   \<and> performActualPrint (updateOrderStatus 9) order109
         [rowCompleted, rowPendingPickup, rowPreparingDelivery]
       = [rowCompleted, rowPendingPickup, rowPreparingDelivery]"
  using C7_print_completes [of "updateOrderStatus 9" orderPreparingDelivery
      "[rowCompleted, rowPendingPickup, rowPreparingDelivery]" 9
      "[rowCompleted, rowPendingPickup, rowPreparingDelivery]"]
    C7_print_completes [of "updateOrderStatus 9" order109
      "[rowCompleted, rowPendingPickup, rowPreparingDelivery]" 9
      "[rowCompleted, rowPendingPickup, rowPreparingDelivery]"]
  by (simp add: orderPreparingDelivery_def order109_def rowCompleted_def rowPendingPickup_def
      rowPreparingDelivery_def updateOrderStatus_def fst_ordersService_updateStatus)

section \<open>C8: the order of \<^verbatim>\<open>ordersService.getAll\<close>\<close>

text \<open>
  The claim says newest-last. On two orders created at 1000 and 2000 the query answers
  the later one first: the last element is the older order and the answer is not
  ascending by creation time.
\<close>

theorem C8_getAll_counterexample:
  "ordersService_getAll [rowCompleted, rowPendingPickup] = Inr [rowPendingPickup, rowCompleted]
   \<and> created_at (last [rowPendingPickup, rowCompleted]) < created_at rowPendingPickup
   \<and> \<not> sorted (map created_at [rowPendingPickup, rowCompleted])"
  by (simp add: ordersService_getAll_def orderDescending_def rowCompleted_def rowPendingPickup_def)

text \<open>
  Claim C8, amended. \<^verbatim>\<open>getAll\<close> answers with all the orders of the table, sorted
  newest-first (descending by creation time), so the first element of the answer is a
  most recently created order.
\<close>

theorem C8_getAll_newest_first:
  "\<exists>rows. ordersService_getAll tbl = Inr rows
     \<and> mset rows = mset tbl
     \<and> sorted_wrt (\<lambda>a b. created_at a \<ge> created_at b) rows
     \<and> (\<forall>r \<in> set tbl. created_at r \<le> created_at (hd rows))"
proof -
  let ?rows = "orderDescending created_at tbl"
  have m: "mset ?rows = mset tbl"
    by (simp add: orderDescending_def)
  have s: "sorted_wrt (\<lambda>a b. created_at a \<ge> created_at b) ?rows"
    unfolding orderDescending_def by (rule sorted_wrt_rev_ge) simp
  have h: "created_at r \<le> created_at (hd ?rows)" if "r \<in> set tbl" for r
  proof -
    from that m have "r \<in> set ?rows" by (metis set_mset_mset)
    then obtain x xs where c: "?rows = x # xs" by (cases ?rows) auto
    with s \<open>r \<in> set ?rows\<close> show ?thesis by auto
  qed
  show ?thesis
    using m s h by (auto simp: ordersService_getAll_def)
qed

theorem C8_getAll_newest_first_witness:
  "ordersService_getAll [rowCompleted, rowPendingPickup, rowPreparingDelivery]
     = Inr [rowPreparingDelivery, rowPendingPickup, rowCompleted]
   \<and> created_at rowCompleted \<le> created_at rowPreparingDelivery"
  using C8_getAll_newest_first [of "[rowCompleted, rowPendingPickup, rowPreparingDelivery]"]
  by (simp add: ordersService_getAll_def orderDescending_def rowCompleted_def rowPendingPickup_def
      rowPreparingDelivery_def)

section \<open>C1: transitions out of a terminal status\<close>

text \<open>
  The claim says that a transition out of a terminal status fails with
  \<^verbatim>\<open>InvalidTransition\<close> and leaves the status as it is. The status update of the store
  accepts completed \<open>\<rightarrow>\<close> preparing: the request succeeds and the row is preparing.
\<close>

theorem C1_terminal_counterexample:
  "db_status rowCompleted = Completed
   \<and> ordersService_updateStatus 5000 ''o1'' Preparing [rowCompleted]
       = ([rowCompleted\<lparr>db_status := Preparing, updated_at := 5000\<rparr>],
          Inr (rowCompleted\<lparr>db_status := Preparing, updated_at := 5000\<rparr>))"
  by (simp add: ordersService_updateStatus_def updateEq_def rowCompleted_def)

text \<open>
  Claim C1, amended. For an order whose status is completed or cancelled the dashboard
  offers no status transition: the block of status buttons is empty and the print
  action changes nothing. For the other statuses the buttons offer pending \<open>\<rightarrow>\<close>
  preparing, preparing \<open>\<rightarrow>\<close> ready (or the delivery dialog when the delivery method is
  delivery) and ready or delivery \<open>\<rightarrow>\<close> completed. The status update of the store checks
  no transition: it writes the requested status on the row with the given id, whatever
  the row's status, and answers with the row when there is exactly one.
\<close>

theorem C1_terminal_no_button:
  "(status ord \<in> {Completed, Cancelled} \<longrightarrow>
      statusUpdateButtons ord = [] \<and> performActualPrint upd ord s = s)
   \<and> (status ord = Pending \<longrightarrow> statusUpdateButtons ord = [UpdateOrderStatus Preparing])
   \<and> (status ord = Preparing \<longrightarrow>
        statusUpdateButtons ord
          = (if deliveryMethod ord = Some ByDelivery then [OpenDeliveryModal]
             else [UpdateOrderStatus Ready]))
   \<and> (status ord \<in> {Ready, Delivery} \<longrightarrow> statusUpdateButtons ord = [UpdateOrderStatus Completed])
   \<and> map db_status (fst (ordersService_updateStatus now i st tbl))
       = map (\<lambda>r. if db_id r = i then st else db_status r) tbl
   \<and> (filter (\<lambda>r. db_id r = i) tbl = [row] \<longrightarrow>
        snd (ordersService_updateStatus now i st tbl)
          = Inr (row\<lparr>db_status := st, updated_at := now\<rparr>))"
  by (auto simp: statusUpdateButtons_def performActualPrint_def fst_ordersService_updateStatus
      snd_ordersService_updateStatus)

theorem C1_terminal_no_button_witness:
  "status order109 \<in> {Completed, Cancelled}
   \<and> statusUpdateButtons order109 = []
   \<and> status orderPreparingDelivery = Preparing
   \<and> statusUpdateButtons orderPreparingDelivery = [OpenDeliveryModal]
   \<and> status orderCashPending = Pending
   \<and> statusUpdateButtons orderCashPending = [UpdateOrderStatus Preparing]
   \<and> filter (\<lambda>r. db_id r = ''o1'') [rowCompleted, rowPendingPickup] = [rowCompleted]
   \<and> snd (ordersService_updateStatus 5000 ''o1'' Cancelled [rowCompleted, rowPendingPickup])
       = Inr (rowCompleted\<lparr>db_status := Cancelled, updated_at := 5000\<rparr>)"
  using C1_terminal_no_button [of order109 "\<lambda>i st s. s" "()" 5000 "''o1''" Cancelled
      "[rowCompleted, rowPendingPickup]" rowCompleted]
    C1_terminal_no_button [of orderPreparingDelivery "\<lambda>i st s. s" "()" 5000 "''o1''" Cancelled
      "[rowCompleted, rowPendingPickup]" rowCompleted]
    C1_terminal_no_button [of orderCashPending "\<lambda>i st s. s" "()" 5000 "''o1''" Cancelled
      "[rowCompleted, rowPendingPickup]" rowCompleted]
  by (simp add: order109_def orderPreparingDelivery_def orderCashPending_def rowCompleted_def
      rowPendingPickup_def)

section \<open>C2: \<^verbatim>\<open>startDelivery\<close>\<close>

text \<open>
  The claim says that \<^verbatim>\<open>startDelivery\<close> succeeds only for an order in status preparing,
  of delivery type delivery, and a positive number of minutes. On a pending pickup
  order and -5 minutes the call succeeds.
\<close>

theorem C2_startDelivery_counterexample:
  "db_status rowPendingPickup = Pending \<and> delivery_type rowPendingPickup = ByPickup
   \<and> ordersService_startDelivery 5000 ''o2'' (- 5) [rowPendingPickup]
       = ([rowPendingPickup\<lparr>db_status := Delivery, delivery_departed_at := Some 5000,
             estimated_delivery_time := Some (- 295000), updated_at := 5000\<rparr>],
          Inr (rowPendingPickup\<lparr>db_status := Delivery, delivery_departed_at := Some 5000,
             estimated_delivery_time := Some (- 295000), updated_at := 5000\<rparr>))"
  by (simp add: ordersService_startDelivery_def updateEq_def rowPendingPickup_def validTime_def)

text \<open>
  Claim C2, amended. \<^verbatim>\<open>startDelivery\<close> checks neither the status of the order, nor its
  delivery type, nor the sign of the minutes. When the arrival time is a valid date, it
  sets on the row with the given id the departure time to now, the estimated delivery
  time to now plus the minutes (60000 ms each), the status to delivery and the update
  time to now, and answers with that row when there is exactly one; otherwise it fails
  with a range error before the store is asked. The dashboard offers the delivery
  dialog exactly for an order in status preparing whose delivery method is delivery.
\<close>

theorem C2_startDelivery_unchecked:
  "(validTime (now + estimatedMinutes * 60000) \<longrightarrow>
      fst (ordersService_startDelivery now i estimatedMinutes tbl)
        = map (\<lambda>r. if db_id r = i
                    then r\<lparr>db_status := Delivery, delivery_departed_at := Some now,
                           estimated_delivery_time := Some (now + estimatedMinutes * 60000),
                           updated_at := now\<rparr>
                    else r) tbl
      \<and> (filter (\<lambda>r. db_id r = i) tbl = [row] \<longrightarrow>
           snd (ordersService_startDelivery now i estimatedMinutes tbl)
             = Inr (row\<lparr>db_status := Delivery, delivery_departed_at := Some now,
                       estimated_delivery_time := Some (now + estimatedMinutes * 60000),
                       updated_at := now\<rparr>)))
   \<and> (\<not> validTime (now + estimatedMinutes * 60000) \<longrightarrow>
        ordersService_startDelivery now i estimatedMinutes tbl = (tbl, Inl RangeError))
   \<and> (OpenDeliveryModal \<in> set (statusUpdateButtons ord)
        \<longleftrightarrow> status ord = Preparing \<and> deliveryMethod ord = Some ByDelivery)"
  by (auto simp: ordersService_startDelivery_def updateEq_def Let_def statusUpdateButtons_def)

theorem C2_startDelivery_unchecked_witness:
  "validTime (5000 + 30 * 60000)
   \<and> filter (\<lambda>r. db_id r = ''o3'') [rowCompleted, rowPreparingDelivery] = [rowPreparingDelivery]
   \<and> ordersService_startDelivery 5000 ''o3'' 30 [rowCompleted, rowPreparingDelivery]
       = ([rowCompleted,
           rowPreparingDelivery\<lparr>db_status := Delivery, delivery_departed_at := Some 5000,
             estimated_delivery_time := Some (5000 + 30 * 60000), updated_at := 5000\<rparr>],
          Inr (rowPreparingDelivery\<lparr>db_status := Delivery, delivery_departed_at := Some 5000,
             estimated_delivery_time := Some (5000 + 30 * 60000), updated_at := 5000\<rparr>))
   \<and> \<not> validTime (5000 + 200000000000 * 60000)
   \<and> ordersService_startDelivery 5000 ''o3'' 200000000000 [rowCompleted, rowPreparingDelivery]
       = ([rowCompleted, rowPreparingDelivery], Inl RangeError)
   \<and> OpenDeliveryModal \<in> set (statusUpdateButtons orderPreparingDelivery)"
  using C2_startDelivery_unchecked [of 5000 30 "''o3''" "[rowCompleted, rowPreparingDelivery]"
      rowPreparingDelivery orderPreparingDelivery]
    C2_startDelivery_unchecked [of 5000 200000000000 "''o3''" "[rowCompleted, rowPreparingDelivery]"
      rowPreparingDelivery orderPreparingDelivery]
  by (simp add: prod_eq_iff validTime_def rowCompleted_def rowPreparingDelivery_def
      orderPreparingDelivery_def)

section \<open>C9: the driver's derived status\<close>

text \<open>
  The claim says that an offline override survives every load-driven update and that
  every operation keeps the invariant. An offline driver becomes busy, or available, by
  \<^verbatim>\<open>updateActiveDeliveries\<close>; and \<^verbatim>\<open>updateStatus\<close> makes a driver with two active
  deliveries available, which breaks the invariant.
\<close>

theorem C9_driver_status_counterexample:
  "driver_status driverOffline = Offline
   \<and> fst (driversService_updateActiveDeliveries 200 ''d1'' 1 [driverOffline])
       = [driverOffline\<lparr>active_deliveries := 1, driver_status := Busy, driver_updated_at := 200\<rparr>]
   \<and> fst (driversService_updateActiveDeliveries 200 ''d1'' 0 [driverOffline])
       = [driverOffline\<lparr>active_deliveries := 0, driver_status := Available,
            driver_updated_at := 200\<rparr>]
   \<and> active_deliveries driverBusy = 2
   \<and> statusInvariant driverBusy
   \<and> fst (driversService_updateStatus 200 ''d2'' Available [driverBusy])
       = [driverBusy\<lparr>driver_status := Available, driver_updated_at := 200\<rparr>]
   \<and> \<not> statusInvariant (driverBusy\<lparr>driver_status := Available, driver_updated_at := 200\<rparr>)"
  by (simp add: fst_driversService_updateActiveDeliveries fst_driversService_updateStatus
      driverOffline_def driverBusy_def statusInvariant_def)

text \<open>
  Claim C9, amended. \<^verbatim>\<open>create\<close>, \<^verbatim>\<open>update\<close>, \<^verbatim>\<open>updateActiveDeliveries\<close> and \<^verbatim>\<open>delete\<close>
  preserve the invariant that a driver's status is busy if and only if its active
  deliveries are positive, unless the status is offline; \<^verbatim>\<open>updateStatus\<close> preserves it
  when the status given is offline or agrees with the load of the driver it is given
  to. \<^verbatim>\<open>updateStatus\<close> stores the given status as it is, offline whatever the load, and
  leaves every count unchanged; \<^verbatim>\<open>update\<close> changes no status and no count, so an offline
  status stays through it. \<^verbatim>\<open>updateActiveDeliveries\<close> stores the count on the driver with
  the given id and sets that driver's status to busy when the count is positive and to
  available otherwise, whatever the status was, offline included; the status and count
  of every other driver stay.
\<close>

theorem C9_driver_status_invariant:
  "((\<forall>r \<in> set tbl. statusInvariant r) \<longrightarrow>
      (\<forall>r \<in> set (fst (driversService_create now newId nm ph tbl)). statusInvariant r)
      \<and> (\<forall>r \<in> set (fst (driversService_update now i nm' ph' tbl)). statusInvariant r)
      \<and> (\<forall>r \<in> set (fst (driversService_updateActiveDeliveries now i cnt tbl)).
            statusInvariant r)
      \<and> (\<forall>r \<in> set (driversService_delete i tbl). statusInvariant r)
      \<and> (st = Offline
            \<or> (\<forall>r \<in> set tbl. driver_id r = i \<longrightarrow> (st = Busy \<longleftrightarrow> active_deliveries r > 0))
          \<longrightarrow> (\<forall>r \<in> set (fst (driversService_updateStatus now i st tbl)). statusInvariant r)))
   \<and> map driver_status (fst (driversService_updateStatus now i st tbl))
       = map (\<lambda>r. if driver_id r = i then st else driver_status r) tbl
   \<and> map active_deliveries (fst (driversService_updateStatus now i st tbl))
       = map active_deliveries tbl
   \<and> map driver_status (fst (driversService_update now i nm' ph' tbl)) = map driver_status tbl
   \<and> map active_deliveries (fst (driversService_update now i nm' ph' tbl))
       = map active_deliveries tbl
   \<and> map driver_status (fst (driversService_updateActiveDeliveries now i cnt tbl))
       = map (\<lambda>r. if driver_id r = i then (if cnt > 0 then Busy else Available)
                   else driver_status r) tbl
   \<and> map active_deliveries (fst (driversService_updateActiveDeliveries now i cnt tbl))
       = map (\<lambda>r. if driver_id r = i then cnt else active_deliveries r) tbl"
proof -
  have upd: "fst (driversService_update now i nm' ph' tbl)
      = map (\<lambda>r. if driver_id r = i
                  then r\<lparr>name := (case nm' of None \<Rightarrow> name r | Some n \<Rightarrow> n),
                         phone := (case ph' of None \<Rightarrow> phone r | Some p \<Rightarrow> p),
                         driver_updated_at := now\<rparr>
                  else r) tbl"
    by (simp add: driversService_update_def updateEq_def)
  have inv: "(\<forall>r \<in> set (fst (driversService_create now newId nm ph tbl)). statusInvariant r)
      \<and> (\<forall>r \<in> set (fst (driversService_update now i nm' ph' tbl)). statusInvariant r)
      \<and> (\<forall>r \<in> set (fst (driversService_updateActiveDeliveries now i cnt tbl)).
            statusInvariant r)
      \<and> (\<forall>r \<in> set (driversService_delete i tbl). statusInvariant r)
      \<and> (st = Offline
            \<or> (\<forall>r \<in> set tbl. driver_id r = i \<longrightarrow> (st = Busy \<longleftrightarrow> active_deliveries r > 0))
          \<longrightarrow> (\<forall>r \<in> set (fst (driversService_updateStatus now i st tbl)). statusInvariant r))"
    if "\<forall>r \<in> set tbl. statusInvariant r"
    using that
    by (auto simp: upd fst_driversService_updateActiveDeliveries fst_driversService_updateStatus
        statusInvariant_def driversService_create_def driversService_delete_def Let_def)
  have maps: "map driver_status (fst (driversService_updateStatus now i st tbl))
       = map (\<lambda>r. if driver_id r = i then st else driver_status r) tbl
   \<and> map active_deliveries (fst (driversService_updateStatus now i st tbl))
       = map active_deliveries tbl
   \<and> map driver_status (fst (driversService_update now i nm' ph' tbl)) = map driver_status tbl
   \<and> map active_deliveries (fst (driversService_update now i nm' ph' tbl))
       = map active_deliveries tbl
   \<and> map driver_status (fst (driversService_updateActiveDeliveries now i cnt tbl))
       = map (\<lambda>r. if driver_id r = i then (if cnt > 0 then Busy else Available)
                   else driver_status r) tbl
   \<and> map active_deliveries (fst (driversService_updateActiveDeliveries now i cnt tbl))
       = map (\<lambda>r. if driver_id r = i then cnt else active_deliveries r) tbl"
    by (auto simp: upd fst_driversService_updateActiveDeliveries fst_driversService_updateStatus)
  from inv maps show ?thesis by blast
qed

theorem C9_driver_status_invariant_witness:
  "map statusInvariant [driverOfflineLoaded, driverBusy] = [True, True]
   \<and> map statusInvariant
         (fst (driversService_updateActiveDeliveries 200 ''d2'' 0 [driverOfflineLoaded, driverBusy]))
       = [True, True]
   \<and> map driver_status
         (fst (driversService_updateActiveDeliveries 200 ''d2'' 0 [driverOfflineLoaded, driverBusy]))
       = [Offline, Available]
   \<and> map active_deliveries
         (fst (driversService_updateActiveDeliveries 200 ''d2'' 0 [driverOfflineLoaded, driverBusy]))
       = [3, 0]
   \<and> map driver_status
         (fst (driversService_updateStatus 200 ''d2'' Offline [driverOfflineLoaded, driverBusy]))
       = [Offline, Offline]
   \<and> map statusInvariant
         (fst (driversService_updateStatus 200 ''d2'' Offline [driverOfflineLoaded, driverBusy]))
       = [True, True]
   \<and> map statusInvariant
         (fst (driversService_create 200 ''d9'' ''Petros'' ''0699999999''
            [driverOfflineLoaded, driverBusy]))
       = [True, True, True]"
  using C9_driver_status_invariant [of "[driverOfflineLoaded, driverBusy]" 200 "''d9''"
      "''Petros''" "''0699999999''" "''d2''" None None 0 Offline]
  by (simp add: driverOfflineLoaded_def driverBusy_def statusInvariant_def
      fst_driversService_updateActiveDeliveries fst_driversService_updateStatus
      driversService_create_def Let_def)

section \<open>C3: driver assignment\<close>

lemma find_distinct_filter:
  "distinct (map key xs) \<Longrightarrow> find (\<lambda>r. key r = i) xs = Some x \<Longrightarrow> filter (\<lambda>r. key r = i) xs = [x]"
proof (induction xs)
  case Nil
  then show ?case by simp
next
  case (Cons a xs)
  show ?case
  proof (cases "key a = i")
    case True
    with Cons.prems have "a = x" "i \<notin> key ` set xs" by auto
    then have "filter (\<lambda>r. key r = i) xs = []" by (auto simp: filter_empty_conv)
    with True \<open>a = x\<close> show ?thesis by simp
  next
    case False
    with Cons show ?thesis by simp
  qed
qed

lemma find_Some_key: "find (\<lambda>r. key r = i) xs = Some x \<Longrightarrow> x \<in> set xs \<and> key x = i"
  by (induction xs) (auto split: if_splits)

lemma find_None_key: "find (\<lambda>r. key r = i) xs = None \<Longrightarrow> \<forall>x \<in> set xs. key x \<noteq> i"
  by (induction xs) (auto split: if_splits)

lemma changeActiveDeliveries_pairs:
  assumes "distinct (map driver_id drivers)"
  shows "map (\<lambda>r. (driver_id r, active_deliveries r)) (changeActiveDeliveries now d k drivers)
           = map (\<lambda>r. (driver_id r, if driver_id r = d then active_deliveries r + k
                                      else active_deliveries r)) drivers"
proof (cases "find (\<lambda>r. driver_id r = d) drivers")
  case None
  then have "\<forall>x \<in> set drivers. driver_id x \<noteq> d" by (rule find_None_key)
  with None show ?thesis by (simp add: changeActiveDeliveries_def)
next
  case (Some drv)
  then have drv: "drv \<in> set drivers" "driver_id drv = d" by (auto dest: find_Some_key)
  from assms have inj: "inj_on driver_id (set drivers)" by (simp add: distinct_map)
  have same: "r = drv" if "r \<in> set drivers" "driver_id r = d" for r
    using inj that drv by (auto dest: inj_onD)
  show ?thesis
    using Some same
    by (auto simp: changeActiveDeliveries_def fst_driversService_updateActiveDeliveries)
qed

lemma changeActiveDeliveries_ids:
  "map driver_id (changeActiveDeliveries now d k drivers) = map driver_id drivers"
  by (cases "find (\<lambda>r. driver_id r = d) drivers")
     (simp_all add: changeActiveDeliveries_def fst_driversService_updateActiveDeliveries comp_def)

lemma assignedTo_update:
  assumes "distinct (map db_id orders)" and "find (\<lambda>r. db_id r = i) orders = Some ord"
  shows "int (assignedTo d (map (\<lambda>r. if db_id r = i
                                      then r\<lparr>assigned_driver_id := new, updated_at := now\<rparr>
                                      else r) orders))
           = int (assignedTo d orders) + countChange (assigned_driver_id ord) new d"
  using assms
proof (induction orders)
  case Nil
  then show ?case by simp
next
  case (Cons a orders)
  show ?case
  proof (cases "db_id a = i")
    case True
    with Cons.prems have a: "a = ord" and "\<forall>r \<in> set orders. db_id r \<noteq> i"
      by (auto simp: image_iff)
    then have "map (\<lambda>r. if db_id r = i then r\<lparr>assigned_driver_id := new, updated_at := now\<rparr>
                          else r) orders = orders"
      by (simp add: map_idI)
    with True a show ?thesis by (simp add: assignedTo_def countChange_def)
  next
    case False
    with Cons show ?thesis by (simp add: assignedTo_def)
  qed
qed

lemma length_filter_sum:
  "int (length (filter P xs)) = (\<Sum>x\<leftarrow>xs. if P x then 1 else 0)"
  by (induction xs) simp_all

lemma contribution_le_1:
  "distinct (map driver_id drivers) \<Longrightarrow> contribution ord drivers \<le> 1"
proof (induction drivers)
  case Nil
  then show ?case by (simp add: contribution_def)
next
  case (Cons a drivers)
  show ?case
  proof (cases "assigned_driver_id ord = Some (driver_id a)")
    case True
    with Cons.prems have "filter (\<lambda>drv. assigned_driver_id ord = Some (driver_id drv)) drivers = []"
      by (auto simp: filter_empty_conv image_iff)
    with True show ?thesis by (simp add: contribution_def)
  next
    case False
    with Cons show ?thesis by (simp add: contribution_def)
  qed
qed

lemma sum_assignedTo_contribution:
  "(\<Sum>drv\<leftarrow>drivers. int (assignedTo (driver_id drv) orders))
     = (\<Sum>r\<leftarrow>orders. int (contribution r drivers))"
proof (induction drivers)
  case Nil
  then show ?case by (simp add: contribution_def)
next
  case (Cons a drivers)
  have "(\<Sum>r\<leftarrow>orders. int (contribution r (a # drivers)))
          = (\<Sum>r\<leftarrow>orders. (if assigned_driver_id r = Some (driver_id a) then 1 else 0)
                              + int (contribution r drivers))"
    by (rule arg_cong [where f = sum_list]) (simp add: contribution_def)
  also have "\<dots> = int (assignedTo (driver_id a) orders) + (\<Sum>r\<leftarrow>orders. int (contribution r drivers))"
    by (simp add: sum_list_addf assignedTo_def length_filter_sum)
  finally show ?case using Cons.IH by simp
qed

lemma bookkeeping_sum:
  "bookkeeping orders drivers \<Longrightarrow>
     sum_list (map active_deliveries drivers) = (\<Sum>r\<leftarrow>orders. int (contribution r drivers))"
proof -
  assume "bookkeeping orders drivers"
  then have "map active_deliveries drivers
               = map (\<lambda>drv. int (assignedTo (driver_id drv) orders)) drivers"
    by (simp add: bookkeeping_def list_all_iff)
  then show ?thesis by (simp only: sum_assignedTo_contribution)
qed

lemma fst_ordersService_assignDriver:
  "fst (ordersService_assignDriver now i new tbl) =
     map (\<lambda>r. if db_id r = i then r\<lparr>assigned_driver_id := new, updated_at := now\<rparr> else r) tbl"
  by (simp add: ordersService_assignDriver_def updateEq_def)

lemma snd_ordersService_assignDriver:
  "snd (ordersService_assignDriver now i new tbl) =
     single (map (\<lambda>r. r\<lparr>assigned_driver_id := new, updated_at := now\<rparr>)
       (filter (\<lambda>r. db_id r = i) tbl))"
  by (simp add: ordersService_assignDriver_def updateEq_def)

lemma assignDriver_found:
  assumes "distinct (map db_id orders)" and "find (\<lambda>r. db_id r = i) orders = Some ord"
  shows "assignDriver now i new (orders, drivers) =
    ((fst (ordersService_assignDriver now i new orders),
      (case new of None \<Rightarrow> (\<lambda>x. x) | Some d \<Rightarrow> changeActiveDeliveries now d 1)
        ((case assigned_driver_id ord of None \<Rightarrow> (\<lambda>x. x)
          | Some p \<Rightarrow> changeActiveDeliveries now p (- 1)) drivers)),
     Inr (ord\<lparr>assigned_driver_id := new, updated_at := now\<rparr>))"
proof -
  have f: "filter (\<lambda>r. db_id r = i) orders = [ord]"
    using assms by (rule find_distinct_filter)
  define orders' where "orders' = fst (ordersService_assignDriver now i new orders)"
  have eq: "ordersService_assignDriver now i new orders =
     (orders', Inr (ord\<lparr>assigned_driver_id := new, updated_at := now\<rparr>))"
    using f by (simp add: orders'_def prod_eq_iff snd_ordersService_assignDriver)
  show ?thesis
    using assms(2) eq
    by (cases new; cases "assigned_driver_id ord") (simp_all add: assignDriver_def Let_def)
qed

lemma assignDriver_pairs:
  assumes "distinct (map driver_id drivers)"
  shows "map (\<lambda>r. (driver_id r, active_deliveries r))
           ((case new of None \<Rightarrow> (\<lambda>x. x) | Some d \<Rightarrow> changeActiveDeliveries now d 1)
             ((case previous of None \<Rightarrow> (\<lambda>x. x)
               | Some p \<Rightarrow> changeActiveDeliveries now p (- 1)) drivers))
         = map (\<lambda>r. (driver_id r, active_deliveries r + countChange previous new (driver_id r))) drivers"
proof -
  let ?d1 = "(case previous of None \<Rightarrow> (\<lambda>x. x)
               | Some p \<Rightarrow> changeActiveDeliveries now p (- 1)) drivers"
  have ids1: "map driver_id ?d1 = map driver_id drivers"
    by (cases previous) (simp_all add: changeActiveDeliveries_ids)
  have p1: "map (\<lambda>r. (driver_id r, active_deliveries r)) ?d1
      = map (\<lambda>r. (driver_id r, active_deliveries r - (if previous = Some (driver_id r) then 1 else 0))) drivers"
    using assms by (cases previous) (auto simp: changeActiveDeliveries_pairs)
  from assms ids1 have dist1: "distinct (map driver_id ?d1)" by simp
  show ?thesis
  proof (cases new)
    case None
    with p1 show ?thesis by (simp add: countChange_def)
  next
    case (Some d)
    have "map (\<lambda>r. (driver_id r, active_deliveries r)) (changeActiveDeliveries now d 1 ?d1)
        = map (\<lambda>(j, a). (j, if j = d then a + 1 else a))
            (map (\<lambda>r. (driver_id r, active_deliveries r)) ?d1)"
      using dist1 by (simp add: changeActiveDeliveries_pairs)
    also have "\<dots> = map (\<lambda>r. (driver_id r, active_deliveries r + countChange previous new (driver_id r))) drivers"
      unfolding p1 using Some by (auto simp: countChange_def)
    finally show ?thesis using Some by simp
  qed
qed

lemma bookkeeping_pairs:
  "bookkeeping orders drivers
     = list_all (\<lambda>(j, a). a = int (assignedTo j orders))
         (map (\<lambda>r. (driver_id r, active_deliveries r)) drivers)"
  by (simp add: bookkeeping_def list_all_iff)

text \<open>
  Claim C3. For an order of the table (order and driver ids being keys), assigning,
  reassigning or unassigning a driver succeeds and leaves every order's status as it
  was; the order's driver becomes the given one; each driver's count rises by one if it
  is the new driver and falls by one if it was the previous driver, and no driver is
  added or removed. Every order contributes to at most one driver, and when every
  count was the number of orders assigned to the driver it still is afterwards, so the
  counts add up to the contributions of the orders, at most 1 for each.
\<close>

theorem C3_assignDriver_bookkeeping:
  assumes "distinct (map db_id orders)" and "distinct (map driver_id drivers)"
    and "find (\<lambda>r. db_id r = i) orders = Some ord"
  shows "(let res = assignDriver now i new (orders, drivers);
              orders' = fst (fst res);
              drivers' = snd (fst res)
          in snd res = Inr (ord\<lparr>assigned_driver_id := new, updated_at := now\<rparr>)
             \<and> map db_status orders' = map db_status orders
             \<and> map assigned_driver_id orders'
                 = map (\<lambda>r. if db_id r = i then new else assigned_driver_id r) orders
             \<and> map driver_id drivers' = map driver_id drivers
             \<and> map active_deliveries drivers'
                 = map (\<lambda>drv. active_deliveries drv
                          + (if new = Some (driver_id drv) then 1 else 0)
                          - (if assigned_driver_id ord = Some (driver_id drv) then 1 else 0))
                     drivers
             \<and> list_all (\<lambda>r. contribution r drivers' \<le> 1) orders'
             \<and> (bookkeeping orders drivers \<longrightarrow>
                  bookkeeping orders' drivers'
                  \<and> sum_list (map active_deliveries drivers')
                      = (\<Sum>r\<leftarrow>orders'. int (contribution r drivers'))))"
proof -
  let ?upd = "\<lambda>r. if db_id r = i then r\<lparr>assigned_driver_id := new, updated_at := now\<rparr> else r"
  define orders' where "orders' = map ?upd orders"
  define drivers' where "drivers' =
    (case new of None \<Rightarrow> (\<lambda>x. x) | Some d \<Rightarrow> changeActiveDeliveries now d 1)
      ((case assigned_driver_id ord of None \<Rightarrow> (\<lambda>x. x)
        | Some p \<Rightarrow> changeActiveDeliveries now p (- 1)) drivers)"
  have res: "assignDriver now i new (orders, drivers)
               = ((orders', drivers'), Inr (ord\<lparr>assigned_driver_id := new, updated_at := now\<rparr>))"
    using assms(1,3)
    by (simp add: assignDriver_found orders'_def drivers'_def fst_ordersService_assignDriver)
  have st: "map db_status orders' = map db_status orders"
    unfolding orders'_def by (induction orders) simp_all
  have asg: "map assigned_driver_id orders'
               = map (\<lambda>r. if db_id r = i then new else assigned_driver_id r) orders"
    unfolding orders'_def by (induction orders) simp_all
  have pairs: "map (\<lambda>r. (driver_id r, active_deliveries r)) drivers'
      = map (\<lambda>r. (driver_id r,
                    active_deliveries r + countChange (assigned_driver_id ord) new (driver_id r))) drivers"
    unfolding drivers'_def using assms(2) by (rule assignDriver_pairs)
  have ids: "map driver_id drivers' = map driver_id drivers"
    using arg_cong [OF pairs, of "map fst"] by (simp add: comp_def)
  have act: "map active_deliveries drivers'
      = map (\<lambda>drv. active_deliveries drv
               + (if new = Some (driver_id drv) then 1 else 0)
               - (if assigned_driver_id ord = Some (driver_id drv) then 1 else 0)) drivers"
    using arg_cong [OF pairs, of "map snd"] by (simp add: comp_def countChange_def)
  have "distinct (map driver_id drivers')"
    using assms(2) ids by simp
  then have le1: "list_all (\<lambda>r. contribution r drivers' \<le> 1) orders'"
    using contribution_le_1 [of drivers'] by (simp add: list_all_iff)
  have keep: "bookkeeping orders' drivers'" if b: "bookkeeping orders drivers"
  proof -
    have "int (assignedTo d orders')
            = int (assignedTo d orders) + countChange (assigned_driver_id ord) new d" for d
      unfolding orders'_def using assms(1,3) by (rule assignedTo_update)
    with b show ?thesis
      unfolding bookkeeping_pairs [of orders' drivers'] pairs
      by (simp add: bookkeeping_def list_all_iff)
  qed
  show ?thesis
    unfolding Let_def res
    using st asg ids act le1 keep bookkeeping_sum [of orders' drivers'] by simp
qed

theorem C3_assignDriver_bookkeeping_witness:
  "distinct (map db_id [rowPreparingDelivery, rowAssigned])
   \<and> distinct (map driver_id [driverIdle, driverOne])
   \<and> find (\<lambda>r. db_id r = ''o4'') [rowPreparingDelivery, rowAssigned] = Some rowAssigned
   \<and> bookkeeping [rowPreparingDelivery, rowAssigned] [driverIdle, driverOne]
   \<and> map db_status (fst (fst (assignDriver 9 ''o4'' (Some ''d3'')
         ([rowPreparingDelivery, rowAssigned], [driverIdle, driverOne]))))
       = [Preparing, Preparing]
   \<and> map assigned_driver_id (fst (fst (assignDriver 9 ''o4'' (Some ''d3'')
         ([rowPreparingDelivery, rowAssigned], [driverIdle, driverOne]))))
       = [None, Some ''d3'']
   \<and> map active_deliveries (snd (fst (assignDriver 9 ''o4'' (Some ''d3'')
         ([rowPreparingDelivery, rowAssigned], [driverIdle, driverOne]))))
       = [1, 0]
   \<and> bookkeeping
        (fst (fst (assignDriver 9 ''o4'' (Some ''d3'')
           ([rowPreparingDelivery, rowAssigned], [driverIdle, driverOne]))))
        (snd (fst (assignDriver 9 ''o4'' (Some ''d3'')
           ([rowPreparingDelivery, rowAssigned], [driverIdle, driverOne]))))"
proof -
  have d1: "distinct (map db_id [rowPreparingDelivery, rowAssigned])"
    by (simp add: rowPreparingDelivery_def rowAssigned_def)
  have d2: "distinct (map driver_id [driverIdle, driverOne])"
    by (simp add: driverIdle_def driverOne_def)
  have f: "find (\<lambda>r. db_id r = ''o4'') [rowPreparingDelivery, rowAssigned] = Some rowAssigned"
    by (simp add: rowPreparingDelivery_def rowAssigned_def)
  have b: "bookkeeping [rowPreparingDelivery, rowAssigned] [driverIdle, driverOne]"
    by (simp add: bookkeeping_def assignedTo_def rowPreparingDelivery_def rowAssigned_def
        driverIdle_def driverOne_def)
  show ?thesis
    using C3_assignDriver_bookkeeping [OF d1 d2 f, of 9 "Some ''d3''"] d1 d2 f b
    by (simp add: Let_def rowPreparingDelivery_def rowAssigned_def driverIdle_def driverOne_def)
qed

end
